theory Spec2Isabelle
  imports Complex_Main "HOL-Library.AList" "HOL-Library.Sublist"
begin

section \<open>Data model\<close>

subsection \<open>Configuration (config.py)\<close>

text \<open>
  The frozen dataclass \<open>Config\<close>. The three credentials are \<open>str | None\<close> in the source
  and default to \<open>None\<close>; seconds are rationals here.
\<close>

record config =
  base_url :: string
  timeout :: rat
  user_agent :: string
  username :: "string option"
  access_key :: "string option"
  partner_id :: "string option"

subsection \<open>JSON values as Python objects\<close>

text \<open>
  What \<open>Response.json()\<close> hands to the resources: \<open>None\<close>, \<open>bool\<close>, \<open>int\<close>, \<open>float\<close>
  (the parsed number, as a rational), \<open>str\<close>, \<open>list\<close> and \<open>dict\<close> (insertion ordered,
  looked up with \<open>map_of\<close>).
\<close>

datatype json =
    JNull
  | JBool bool
  | JInt int
  | JFloat rat
  | JStr string
  | JArr "json list"
  | JObj "(string \<times> json) list"

text \<open>Python truthiness, as \<open>or\<close> and \<open>if\<close> test it.\<close>

fun truthy :: "json \<Rightarrow> bool" where
  "truthy JNull = False"
| "truthy (JBool b) = b"
| "truthy (JInt i) = (i \<noteq> 0)"
| "truthy (JFloat r) = (r \<noteq> 0)"
| "truthy (JStr s) = (s \<noteq> [])"
| "truthy (JArr xs) = (xs \<noteq> [])"
| "truthy (JObj kvs) = (kvs \<noteq> [])"

text \<open>\<open>d.get(k)\<close>: the value, or \<open>None\<close> when the key is absent.\<close>

definition dict_get :: "(string \<times> json) list \<Rightarrow> string \<Rightarrow> json" where
  "dict_get d k = (case map_of d k of None \<Rightarrow> JNull | Some v \<Rightarrow> v)"

text \<open>\<open>a or b\<close>: the first operand when it is truthy, otherwise the second.\<close>

definition py_or :: "json \<Rightarrow> json \<Rightarrow> json" where
  "py_or a b = (if truthy a then a else b)"

subsection \<open>Exceptions\<close>

text \<open>
  The classes of httpx that derive from \<open>httpx.HTTPError\<close> (the library's hierarchy:
  \<open>HTTPError > RequestError > TransportError > TimeoutException, NetworkError, ...\<close>).
  \<open>ConnectTimeout\<close> is a \<open>TimeoutException\<close>; \<open>ConnectError\<close> and \<open>ReadError\<close> are
  \<open>NetworkError\<close>s. None of them is a subclass of another one listed here.
\<close>

datatype httpx_error =
    HTTPError
  | ConnectTimeout
  | ReadTimeout
  | WriteTimeout
  | PoolTimeout
  | ConnectError
  | ReadError
  | WriteError
  | CloseError
  | ProtocolError
  | ProxyError
  | UnsupportedProtocol
  | DecodingError
  | TooManyRedirects
  | HTTPStatusError

text \<open>
  Modelled from the spec: errors.py is not among the sources. Its classes
  \<open>APITimeoutError\<close>, \<open>APIConnectionError\<close> and \<open>APIResponseError\<close> are the timeout,
  connection and response errors of section 7 of the spec, the last with a status and a
  message; test_errors.py has them derive from the library's own base class, so none of
  them is an httpx exception. \<open>ConfigurationError\<close> is the spec's name for the failure on
  missing credentials (test_auth.py matches it as a \<open>ValueError\<close>).

  The other constructors are every other exception a call of this library can end with:
  \<open>Httpx k msg\<close> is a raw httpx exception of class \<open>k\<close> with \<open>str(e) = msg\<close>, \<open>RetryError\<close>
  is what tenacity raises when it gives up without \<open>reraise\<close>, the rest are Python
  built-ins and pydantic's \<open>ValidationError\<close>.
\<close>

datatype exn =
    Httpx httpx_error string
  | APITimeoutError string
  | APIConnectionError string
  | APIResponseError int string
  | ConfigurationError string
  | RetryError
  | ValueError string
  | KeyError string
  | TypeError
  | AttributeError
  | JSONDecodeError
  | ValidationError

subsection \<open>Requests, responses and the world\<close>

text \<open>
  An \<open>httpx.Response\<close> as the library reads it: \<open>status_code\<close>, \<open>text\<close> and \<open>json()\<close>
  (\<open>None\<close> when the body does not decode, where \<open>json()\<close> raises).
\<close>

record response =
  status_code :: int
  body_text :: string
  json_body :: "json option"

text \<open>
  The keyword arguments of \<open>request\<close>: the optional \<open>headers\<close> mapping, and everything
  else (\<open>params\<close>, \<open>json\<close>, ...) by name.
\<close>

record kwargs =
  kw_headers :: "(string \<times> string) list option"
  kw_rest :: "(string \<times> json) list"

text \<open>One call of \<open>client.request(method, url, headers=..., **kwargs)\<close> as it was issued.\<close>

record http_call =
  call_method :: string
  call_url :: string
  call_headers :: "(string \<times> string) list"
  call_kwargs :: "(string \<times> json) list"

text \<open>
  The response of the token endpoint as the token cache reads it: status, body text and
  the two payload fields (\<open>None\<close> for a field the JSON object does not have).
\<close>

record auth_response =
  auth_status :: int
  auth_text :: string
  access_token :: "string option"
  expires_in :: "rat option"

text \<open>
  The mutable state of one client instance and a trace of its effects: the cached token
  and its expiry (\<open>_token\<close>, \<open>_exp_ts\<close>), how often the clock was read and the token
  endpoint was called, the calls issued through the HTTP client in order, and the
  waits of the retry decorator.
\<close>

record world =
  token_value :: "string option"
  expires_at :: "rat option"
  clock_reads :: nat
  auth_posts :: nat
  sent :: "http_call list"
  slept :: "rat list"

definition initial_world :: world where
  "initial_world =
     \<lparr>token_value = None, expires_at = None, clock_reads = 0, auth_posts = 0,
      sent = [], slept = []\<rparr>"

text \<open>
  What the client cannot control: its configuration, the clock (the n-th reading of
  \<open>time.time()\<close>), the token endpoint (what the n-th credential exchange ends with) and
  the API server (what the latest call ends with, given every call issued so far). A
  call ends with a response or with an exception raised by the HTTP client.
\<close>

record env =
  cfg :: config
  clock :: "nat \<Rightarrow> rat"
  token_endpoint :: "nat \<Rightarrow> exn + auth_response"
  server :: "http_call list \<Rightarrow> exn + response"

section \<open>Token cache\<close>

text \<open>
  Modelled from the spec: auth.py (class \<open>SiigoAuth\<close>, the spec's TokenCache) is not
  among the sources; only its tests and its caller \<open>_http.py\<close> are. The definitions of
  this section follow section 4.2 of the spec step by step, except where the
  repository's tests pin the absent code otherwise, which is said at the definition.
\<close>

text \<open>
  Modelled from the spec: the credentials of step 1 are \<open>username\<close>, \<open>accessKey\<close> and
  \<open>partnerId\<close>; one that is unset is missing. Reading the clock (\<open>now\<close>) takes the next
  reading the environment has.
\<close>

definition credentials_missing :: "config \<Rightarrow> bool" where
  "credentials_missing c =
     (username c = None \<or> access_key c = None \<or> partner_id c = None)"

definition time_time :: "env \<Rightarrow> world \<Rightarrow> rat \<times> world" where
  "time_time e w = (clock e (clock_reads w), w\<lparr>clock_reads := Suc (clock_reads w)\<rparr>)"

text \<open>
  Modelled from the spec: steps 3 to 5 of \<open>getToken()\<close>, which are also the forced
  refetch (\<open>SiigoAuth._fetch\<close> for \<open>_http.py\<close>). One credential exchange; a non-2xx status
  fails with that status and the body text; a payload without \<open>access_token\<close> fails with
  status 500; otherwise the token and its expiry (\<open>now + expires_in\<close>, or none) replace
  the cache and the token is returned. An exception of the HTTP client is not handled.
  A failure leaves the cache as it was.
\<close>

definition auth_fetch :: "env \<Rightarrow> world \<Rightarrow> (exn + string) \<times> world" where
  "auth_fetch e w =
     (let w1 = w\<lparr>auth_posts := Suc (auth_posts w)\<rparr> in
      case token_endpoint e (auth_posts w) of
        Inl ex \<Rightarrow> (Inl ex, w1)
      | Inr r \<Rightarrow>
          if \<not> (200 \<le> auth_status r \<and> auth_status r < 300)
          then (Inl (APIResponseError (auth_status r) (auth_text r)), w1)
          else (case access_token r of
                  None \<Rightarrow> (Inl (APIResponseError 500 ''No access_token in response''), w1)
                | Some t \<Rightarrow>
                    (case expires_in r of
                       None \<Rightarrow> (Inr t, w1\<lparr>token_value := Some t, expires_at := None\<rparr>)
                     | Some d \<Rightarrow>
                         (let (now, w2) = time_time e w1 in
                          (Inr t, w2\<lparr>token_value := Some t, expires_at := Some (now + d)\<rparr>)))))"

text \<open>
  Modelled from the spec: \<open>getToken()\<close> (\<open>SiigoAuth.token\<close> for \<open>_http.py\<close>). Step 1: missing
  credentials fail at once. Step 2: a cached token with \<open>now < expiresAt\<close> is returned.
  Otherwise the fetch of steps 3 to 5. Step 2 of the spec also returns a cached token
  that has no expiry; the repository's tests pin the opposite for \<open>SiigoAuth.token\<close>
  (tests/test_integration.py, \<open>test_authentication_flow\<close>: with \<open>_token\<close> set and \<open>_exp_ts\<close>
  \<open>None\<close>, one request calls \<open>_fetch\<close> exactly once), and the model follows the tests: a
  cached token without expiry is fetched again.
\<close>

definition auth_token :: "env \<Rightarrow> world \<Rightarrow> (exn + string) \<times> world" where
  "auth_token e w =
     (if credentials_missing (cfg e)
      then (Inl (ConfigurationError ''username, access_key and partner_id are required''), w)
      else (case token_value w of
              None \<Rightarrow> auth_fetch e w
            | Some t \<Rightarrow>
                (case expires_at w of
                   None \<Rightarrow> auth_fetch e w
                 | Some x \<Rightarrow>
                     (let (now, w1) = time_time e w in
                      if now < x then (Inr t, w1) else auth_fetch e w1))))"

text \<open>
  Modelled from the spec: the condition of step 2 on the expiry, as the next reading of
  the clock decides it: the token has an expiry, and it lies in the future.
\<close>

definition token_fresh :: "env \<Rightarrow> world \<Rightarrow> bool" where
  "token_fresh e w =
     (case expires_at w of None \<Rightarrow> False | Some x \<Rightarrow> clock e (clock_reads w) < x)"

text \<open>The token the n-th credential exchange hands out, if it hands one out.\<close>

definition exchanged_token :: "env \<Rightarrow> nat \<Rightarrow> string option" where
  "exchanged_token e n =
     (case token_endpoint e n of Inl ex \<Rightarrow> None | Inr r \<Rightarrow> access_token r)"

section \<open>Transport (_http.py)\<close>

text \<open>
  \<open>SyncTransport._headers\<close>: \<open>base = {"Partner-Id": self.cfg.partner_id or ""}\<close>, then
  \<open>tok = self.auth.token()\<close>, then \<open>{**base, "Authorization": f"Bearer {tok}"}\<close>. Dict
  unpacking is \<open>AList.merge\<close>: the right operand wins on a shared key.
\<close>

definition transport_headers :: "env \<Rightarrow> world \<Rightarrow> (exn + (string \<times> string) list) \<times> world" where
  "transport_headers e w =
     (let base = [(''Partner-Id'', case partner_id (cfg e) of None \<Rightarrow> [] | Some p \<Rightarrow> p)] in
      case auth_token e w of
        (Inl ex, w1) \<Rightarrow> (Inl ex, w1)
      | (Inr tok, w1) \<Rightarrow>
          (Inr (AList.merge base [(''Authorization'', ''Bearer '' @ tok)]), w1))"

text \<open>\<open>kwargs.pop("headers", {})\<close>: the caller's headers (or none), removed from the kwargs.\<close>

definition caller_headers :: "kwargs \<Rightarrow> (string \<times> string) list" where
  "caller_headers kw = (case kw_headers kw of None \<Rightarrow> [] | Some h \<Rightarrow> h)"

definition pop_headers :: "kwargs \<Rightarrow> (string \<times> string) list \<times> kwargs" where
  "pop_headers kw = (caller_headers kw, kw\<lparr>kw_headers := None\<rparr>)"

text \<open>
  \<open>self.client.request(method, url, headers=h, **kwargs)\<close>: the call is issued (and
  recorded), and ends as the server decides.
\<close>

definition issued_call ::
  "string \<Rightarrow> string \<Rightarrow> (string \<times> string) list \<Rightarrow> kwargs \<Rightarrow> http_call" where
  "issued_call m u h kw =
     \<lparr>call_method = m, call_url = u, call_headers = h, call_kwargs = kw_rest kw\<rparr>"

definition client_request ::
  "env \<Rightarrow> string \<Rightarrow> string \<Rightarrow> (string \<times> string) list \<Rightarrow> kwargs \<Rightarrow> world \<Rightarrow>
   (exn + response) \<times> world" where
  "client_request e m u h kw w =
     (let w1 = w\<lparr>sent := sent w @ [issued_call m u h kw]\<rparr> in (server e (sent w1), w1))"

text \<open>
  The body of the \<open>try\<close> in \<open>request\<close>. The headers argument is evaluated left to right:
  \<open>self._headers()\<close> first, then the \<open>pop\<close>, then the remaining kwargs are unpacked. On a
  401 the token is fetched again and the same expression is evaluated a second time, on
  the kwargs the first evaluation left behind.
\<close>

definition try_block ::
  "env \<Rightarrow> string \<Rightarrow> string \<Rightarrow> kwargs \<Rightarrow> world \<Rightarrow> (exn + response) \<times> world" where
  "try_block e m u kw w =
     (case transport_headers e w of
        (Inl ex, w1) \<Rightarrow> (Inl ex, w1)
      | (Inr h, w1) \<Rightarrow>
          (let (ch, kw1) = pop_headers kw in
           case client_request e m u (AList.merge h ch) kw1 w1 of
             (Inl ex, w2) \<Rightarrow> (Inl ex, w2)
           | (Inr resp, w2) \<Rightarrow>
               if status_code resp = 401
               then (case auth_fetch e w2 of
                       (Inl ex, w3) \<Rightarrow> (Inl ex, w3)
                     | (Inr t, w3) \<Rightarrow>
                         (case transport_headers e w3 of
                            (Inl ex, w4) \<Rightarrow> (Inl ex, w4)
                          | (Inr h2, w4) \<Rightarrow>
                              (let (ch2, kw2) = pop_headers kw1 in
                               client_request e m u (AList.merge h2 ch2) kw2 w4)))
               else (Inr resp, w2)))"

text \<open>
  What follows the \<open>try\<close>: \<open>except httpx.ConnectTimeout\<close> raises \<open>APITimeoutError(str(e))\<close>,
  \<open>except httpx.HTTPError\<close> (every other httpx class of the model) raises
  \<open>APIConnectionError(str(e))\<close>, any other exception propagates; a response with status
  \<open>>= 400\<close> raises \<open>APIResponseError(status, text)\<close>, any other response is returned.
\<close>

definition handle_outcome :: "exn + response \<Rightarrow> exn + response" where
  "handle_outcome r =
     (case r of
        Inl (Httpx k msg) \<Rightarrow>
          if k = ConnectTimeout then Inl (APITimeoutError msg) else Inl (APIConnectionError msg)
      | Inl ex \<Rightarrow> Inl ex
      | Inr resp \<Rightarrow>
          if status_code resp \<ge> 400
          then Inl (APIResponseError (status_code resp) (body_text resp))
          else Inr resp)"

text \<open>The function \<open>request\<close> as written, before the decorator wraps it.\<close>

definition request_attempt ::
  "env \<Rightarrow> string \<Rightarrow> string \<Rightarrow> kwargs \<Rightarrow> world \<Rightarrow> (exn + response) \<times> world" where
  "request_attempt e m u kw w =
     (case try_block e m u kw w of (r, w1) \<Rightarrow> (handle_outcome r, w1))"

text \<open>
  The decorator \<open>@retry(retry=retry_if_exception_type((httpx.ConnectError,
  httpx.ReadError)), wait=wait_exponential(multiplier=0.3, min=0.5, max=5),
  stop=stop_after_attempt(3))\<close> of tenacity: the predicate on the exception that left
  the wrapped function, the wait after the attempt with the given number, and the loop,
  which calls the wrapped function with the caller's arguments anew on every attempt
  and raises \<open>RetryError\<close> when the last attempt fails retryably (\<open>reraise\<close> is not set).
\<close>

definition retry_if_exception_type :: "exn \<Rightarrow> bool" where
  "retry_if_exception_type ex =
     (case ex of Httpx k msg \<Rightarrow> k = ConnectError \<or> k = ReadError | _ \<Rightarrow> False)"

definition wait_exponential :: "nat \<Rightarrow> rat" where
  "wait_exponential attempt = max (max 0 (1 / 2)) (min (3 / 10 * 2 ^ (attempt - 1)) 5)"

fun tenacity_retry ::
  "(world \<Rightarrow> (exn + 'a) \<times> world) \<Rightarrow> nat \<Rightarrow> nat \<Rightarrow> world \<Rightarrow> (exn + 'a) \<times> world" where
  "tenacity_retry f attempt 0 w =
     (case f w of
        (Inl ex, w1) \<Rightarrow>
          if retry_if_exception_type ex then (Inl RetryError, w1) else (Inl ex, w1)
      | (Inr v, w1) \<Rightarrow> (Inr v, w1))"
| "tenacity_retry f attempt (Suc left) w =
     (case f w of
        (Inl ex, w1) \<Rightarrow>
          if retry_if_exception_type ex
          then tenacity_retry f (Suc attempt) left
                 (w1\<lparr>slept := slept w1 @ [wait_exponential attempt]\<rparr>)
          else (Inl ex, w1)
      | (Inr v, w1) \<Rightarrow> (Inr v, w1))"

text \<open>\<open>SyncTransport.request\<close>: attempt 1, with two more attempts left.\<close>

definition request ::
  "env \<Rightarrow> string \<Rightarrow> string \<Rightarrow> kwargs \<Rightarrow> world \<Rightarrow> (exn + response) \<times> world" where
  "request e m u kw w = tenacity_retry (request_attempt e m u kw) 1 2 w"

text \<open>
  The headers as the spec words them: the partner id (or the empty string) and the
  bearer token.
\<close>

definition bearer_headers :: "env \<Rightarrow> string \<Rightarrow> (string \<times> string) list" where
  "bearer_headers e tok =
     [(''Partner-Id'', case partner_id (cfg e) of None \<Rightarrow> [] | Some p \<Rightarrow> p),
      (''Authorization'', ''Bearer '' @ tok)]"


section \<open>Resources\<close>

text \<open>
  A resource is constructed with \<open>_request\<close>, the bound \<open>request\<close> of a transport; the
  model takes it as a parameter, over any state. \<open>r.json()\<close> raises when the body does
  not decode.
\<close>

type_synonym 'w requester = "string \<Rightarrow> string \<Rightarrow> kwargs \<Rightarrow> 'w \<Rightarrow> (exn + response) \<times> 'w"

definition response_json :: "response \<Rightarrow> exn + json" where
  "response_json r = (case json_body r of None \<Rightarrow> Inl JSONDecodeError | Some j \<Rightarrow> Inr j)"

text \<open>
  \<open>TypeAdapter(list[T]).validate_python(items)\<close> of pydantic, with the validator of one
  \<open>T\<close> as a parameter: of the values JSON decodes to, only a list passes, and every
  element must validate.
\<close>

definition validate_list :: "(json \<Rightarrow> 'a option) \<Rightarrow> json \<Rightarrow> exn + 'a list" where
  "validate_list validate items =
     (case items of
        JArr xs \<Rightarrow>
          (case those (map validate xs) of None \<Rightarrow> Inl ValidationError | Some cs \<Rightarrow> Inr cs)
      | _ \<Rightarrow> Inl ValidationError)"

subsection \<open>Customers (resources/customers.py)\<close>

text \<open>\<open>items = data.get("results") or data.get("data") or []\<close>\<close>

definition list_items :: "(string \<times> json) list \<Rightarrow> json" where
  "list_items data = py_or (py_or (dict_get data ''results'') (dict_get data ''data'')) (JArr [])"

text \<open>
  The items as the claim words them: the value under \<open>results\<close> if that key is present
  and truthy, otherwise the value under \<open>data\<close> if that key is present and truthy,
  otherwise the empty list.
\<close>

definition items_by_key :: "(string \<times> json) list \<Rightarrow> json" where
  "items_by_key data =
     (case map_of data ''results'' of
        Some v \<Rightarrow>
          if truthy v then v
          else (case map_of data ''data'' of
                  Some u \<Rightarrow> if truthy u then u else JArr []
                | None \<Rightarrow> JArr [])
      | None \<Rightarrow>
          (case map_of data ''data'' of
             Some u \<Rightarrow> if truthy u then u else JArr []
           | None \<Rightarrow> JArr []))"

text \<open>
  \<open>CustomersResource.list\<close>, consumed to the end: the customers it yields, or the
  exception it raises. The request carries \<open>params\<close>, which holds \<open>created_start\<close> when
  that argument is truthy. \<open>data.get\<close> exists on a dict only.
\<close>

definition list_kwargs :: "string option \<Rightarrow> kwargs" where
  "list_kwargs created_start =
     \<lparr>kw_headers = None,
      kw_rest =
        [(''params'',
          JObj (case created_start of
                  None \<Rightarrow> []
                | Some s \<Rightarrow> if s = [] then [] else [(''created_start'', JStr s)]))]\<rparr>"

definition customers_list ::
  "'w requester \<Rightarrow> (json \<Rightarrow> 'c option) \<Rightarrow> string \<Rightarrow> string option \<Rightarrow> 'w \<Rightarrow>
   (exn + 'c list) \<times> 'w" where
  "customers_list req validate base created_start w =
     (case req ''GET'' (base @ ''/v1/customers'') (list_kwargs created_start) w of
        (Inl ex, w1) \<Rightarrow> (Inl ex, w1)
      | (Inr r, w1) \<Rightarrow>
          (case response_json r of
             Inl ex \<Rightarrow> (Inl ex, w1)
           | Inr (JObj data) \<Rightarrow> (validate_list validate (list_items data), w1)
           | Inr _ \<Rightarrow> (Inl AttributeError, w1)))"

subsection \<open>Webhooks (resources/webhooks.py)\<close>

definition webhook_type_map :: "(string \<times> string) list" where
  "webhook_type_map =
     [(''PRODUCTS_CREATE'', ''public.siigoapi.products.create''),
      (''PRODUCTS_UPDATE'', ''public.siigoapi.products.update''),
      (''STOCK_UPDATE'', ''public.siigoapi.products.stock.update'')]"

text \<open>
  \<open>for wh in data\<close>: a list gives its elements, a dict its keys, a string its characters;
  anything else is not iterable.
\<close>

fun py_iter :: "json \<Rightarrow> exn + json list" where
  "py_iter (JArr xs) = Inr xs"
| "py_iter (JObj kvs) = Inr (map (\<lambda>kv. JStr (fst kv)) kvs)"
| "py_iter (JStr s) = Inr (map (\<lambda>c. JStr [c]) s)"
| "py_iter _ = Inl TypeError"

text \<open>\<open>wh[k]\<close> with a string key: defined on a dict that has the key.\<close>

fun py_getitem :: "json \<Rightarrow> string \<Rightarrow> exn + json" where
  "py_getitem (JObj d) k = (case map_of d k of None \<Rightarrow> Inl (KeyError k) | Some v \<Rightarrow> Inr v)"
| "py_getitem _ k = Inl TypeError"

text \<open>
  \<open>next((wh for wh in data if wh["topic"] == self.webhook_type_map[webhook_type]), None)\<close>:
  the first element whose topic is the mapped one; both subscripts are evaluated for
  every element the search reaches, the left one first.
\<close>

fun find_by_topic :: "string \<Rightarrow> json list \<Rightarrow> exn + json option" where
  "find_by_topic webhook_type [] = Inr None"
| "find_by_topic webhook_type (wh # rest) =
     (case py_getitem wh ''topic'' of
        Inl ex \<Rightarrow> Inl ex
      | Inr v \<Rightarrow>
          (case map_of webhook_type_map webhook_type of
             None \<Rightarrow> Inl (KeyError webhook_type)
           | Some topic \<Rightarrow>
               if v = JStr topic then Inr (Some wh) else find_by_topic webhook_type rest))"

text \<open>
  \<open>WebhookResource.get_by_type\<close>, with pydantic's validator of one \<open>Webhook\<close> as a
  parameter: one GET of the collection, then the search.
\<close>

definition get_by_type ::
  "'w requester \<Rightarrow> (json \<Rightarrow> 'h option) \<Rightarrow> string \<Rightarrow> string \<Rightarrow> 'w \<Rightarrow>
   (exn + 'h option) \<times> 'w" where
  "get_by_type req validate base webhook_type w =
     (case req ''GET'' (base @ ''/v1/webhooks'') \<lparr>kw_headers = None, kw_rest = []\<rparr> w of
        (Inl ex, w1) \<Rightarrow> (Inl ex, w1)
      | (Inr r, w1) \<Rightarrow>
          (case response_json r of
             Inl ex \<Rightarrow> (Inl ex, w1)
           | Inr data \<Rightarrow>
               (case py_iter data of
                  Inl ex \<Rightarrow> (Inl ex, w1)
                | Inr whs \<Rightarrow>
                    (case find_by_topic webhook_type whs of
                       Inl ex \<Rightarrow> (Inl ex, w1)
                     | Inr None \<Rightarrow> (Inr None, w1)
                     | Inr (Some wh) \<Rightarrow>
                         if truthy wh
                         then (case validate wh of
                                 None \<Rightarrow> (Inl ValidationError, w1)
                               | Some h \<Rightarrow> (Inr (Some h), w1))
                         else (Inr None, w1)))))"

text \<open>The message of the URL guard; \<open>CHR 0x27\<close> is the single quote.\<close>

definition invalid_url_message :: string where
  "invalid_url_message =
     ''Invalid URL. It must start with '' @ [CHR 0x27] @ ''http://'' @ [CHR 0x27] @
     '' or '' @ [CHR 0x27] @ ''https://'' @ [CHR 0x27]"

text \<open>
  \<open>WebhookResource.upsert\<close>: the two guards, then the lookup, whose result is bound and
  dropped; the function ends without a \<open>return\<close>, so its value is \<open>None\<close> (\<open>Inr None\<close>
  here; \<open>Inr (Some h)\<close> would be a \<open>Webhook\<close>).
\<close>

definition upsert ::
  "'w requester \<Rightarrow> (json \<Rightarrow> 'h option) \<Rightarrow> string \<Rightarrow> string \<Rightarrow> string \<Rightarrow> 'w \<Rightarrow>
   (exn + 'h option) \<times> 'w" where
  "upsert req validate base webhook_type url w =
     (if map_of webhook_type_map webhook_type = None
      then (Inl (ValueError (''Invalid webhook type: '' @ webhook_type)), w)
      else if url = [] \<or> \<not> prefix ''http'' url
      then (Inl (ValueError invalid_url_message), w)
      else (case get_by_type req validate base webhook_type w of
              (Inl ex, w1) \<Rightarrow> (Inl ex, w1)
            | (Inr webhook, w1) \<Rightarrow> (Inr None, w1)))"

section \<open>Fixtures\<close>

text \<open>
  The configuration and the token response of the test suite (conftest.py), and
  environments built on them: the clock ticks one second per reading.
\<close>

definition mock_config :: config where
  "mock_config =
     \<lparr>base_url = ''https://api.test.siigo.com'', timeout = 30,
      user_agent = ''siigo-connector/0.1.0 (+https://github.com/arendondiosa/siigo-connector)'',
      username = Some ''test_user'', access_key = Some ''test_key'',
      partner_id = Some ''test_partner''\<rparr>"

definition token_response :: "string \<Rightarrow> auth_response" where
  "token_response t =
     \<lparr>auth_status = 200, auth_text = [], access_token = Some t, expires_in = Some 3600\<rparr>"

definition plain_response :: "int \<Rightarrow> string \<Rightarrow> response" where
  "plain_response s t = \<lparr>status_code = s, body_text = t, json_body = None\<rparr>"

definition mock_env ::
  "(nat \<Rightarrow> exn + auth_response) \<Rightarrow> (http_call list \<Rightarrow> exn + response) \<Rightarrow> env" where
  "mock_env endpoint srv =
     \<lparr>cfg = mock_config, clock = (\<lambda>n. 1000 + of_nat n), token_endpoint = endpoint,
      server = srv\<rparr>"

definition no_kwargs :: kwargs where
  "no_kwargs = \<lparr>kw_headers = None, kw_rest = []\<rparr>"

text \<open>A configuration without credentials, and a token response without the token.\<close>

definition no_credentials_env :: env where
  "no_credentials_env =
     (mock_env (\<lambda>n. Inr (token_response ''test_token_12345''))
        (\<lambda>cs. Inr (plain_response 200 [])))
       \<lparr>cfg := mock_config\<lparr>username := None, access_key := None, partner_id := None\<rparr>\<rparr>"

definition no_token_response :: auth_response where
  "no_token_response =
     \<lparr>auth_status = 200, auth_text = [], access_token = None, expires_in = None\<rparr>"

definition no_token_env :: env where
  "no_token_env = mock_env (\<lambda>n. Inr no_token_response) (\<lambda>cs. Inr (plain_response 200 []))"



text \<open>
  Servers of the transport's tests (test_http.py): every call is reset while connecting;
  every call times out while connecting; the first call is answered 401 and the next
  200, with a token endpoint that hands out \<open>old_token\<close> and then \<open>new_token\<close>, or one
  that fails the second exchange (with a 500, or with a connection error), or one
  whose tokens have no expiry; every call is answered with a given status.
\<close>

definition connect_reset_env :: env where
  "connect_reset_env =
     mock_env (\<lambda>n. Inr (token_response ''test_token_12345''))
       (\<lambda>cs. Inl (Httpx ConnectError ''Connection reset''))"

definition connect_timeout_env :: env where
  "connect_timeout_env =
     mock_env (\<lambda>n. Inr (token_response ''test_token_12345''))
       (\<lambda>cs. Inl (Httpx ConnectTimeout ''Connection timeout''))"

definition unauthorized_once :: "http_call list \<Rightarrow> exn + response" where
  "unauthorized_once cs =
     (if length cs = 1 then Inr (plain_response 401 ''Unauthorized'')
      else Inr (plain_response 200 ''OK''))"

definition retry_401_env :: env where
  "retry_401_env =
     mock_env (\<lambda>n. if n = 0 then Inr (token_response ''old_token'')
                    else Inr (token_response ''new_token''))
       unauthorized_once"

definition refetch_fails_env :: env where
  "refetch_fails_env =
     mock_env (\<lambda>n. if n = 0 then Inr (token_response ''old_token'')
                    else Inr \<lparr>auth_status = 500, auth_text = ''Internal Server Error'',
                               access_token = None, expires_in = None\<rparr>)
       unauthorized_once"

definition refetch_unreachable_env :: env where
  "refetch_unreachable_env =
     mock_env (\<lambda>n. if n = 0 then Inr (token_response ''old_token'')
                    else Inl (Httpx ConnectError ''auth down''))
       unauthorized_once"

definition no_expiry_retry_env :: env where
  "no_expiry_retry_env =
     mock_env (\<lambda>n. Inr \<lparr>auth_status = 200, auth_text = [],
                           access_token =
                             Some (if n = 0 then ''token_0''
                                   else if n = 1 then ''token_1'' else ''token_2''),
                           expires_in = None\<rparr>)
       unauthorized_once"

definition status_env :: "int \<Rightarrow> string \<Rightarrow> env" where
  "status_env s t =
     mock_env (\<lambda>n. Inr (token_response ''test_token_12345'')) (\<lambda>cs. Inr (plain_response s t))"

definition test_url :: string where
  "test_url = ''https://api.test.siigo.com/v1/test''"

definition custom_kwargs :: kwargs where
  "custom_kwargs = \<lparr>kw_headers = Some [(''X-Custom-Header'', ''v'')], kw_rest = []\<rparr>"

text \<open>
  A stand-in for \<open>_request\<close> as the resources' tests use one (a \<open>Mock\<close>): it records the
  method and the URL of every call and returns the given response. Bodies for the
  customers list, and a webhook collection that holds the topic of \<open>PRODUCTS_CREATE\<close>.
\<close>

definition logging_request :: "response \<Rightarrow> (string \<times> string) list requester" where
  "logging_request r m u kw calls = (Inr r, calls @ [(m, u)])"

definition json_response :: "json \<Rightarrow> response" where
  "json_response j = \<lparr>status_code = 200, body_text = [], json_body = Some j\<rparr>"

definition neither_key_body :: "(string \<times> json) list" where
  "neither_key_body = [(''total'', JInt 0), (''page'', JInt 1)]"

definition data_key_body :: "(string \<times> json) list" where
  "data_key_body =
     [(''results'', JArr []), (''data'', JArr [JObj [(''id'', JStr ''test-id'')]])]"

definition webhook_collection :: json where
  "webhook_collection =
     JArr [JObj [(''id'', JStr ''w1''), (''topic'', JStr ''public.siigoapi.products.create''),
                 (''url'', JStr ''https://example.com/hook'')]]"

definition hook_url :: string where
  "hook_url = ''https://example.com/hook''"

section \<open>Properties of the token cache\<close>

lemma auth_token_missing:
  "credentials_missing (cfg e) \<Longrightarrow>
   auth_token e w =
     (Inl (ConfigurationError ''username, access_key and partner_id are required''), w)"
  by (simp add: auth_token_def)

lemma auth_fetch_frame:
  "auth_fetch e w = (r, w1) \<Longrightarrow>
   sent w1 = sent w \<and> slept w1 = slept w \<and> auth_posts w1 = Suc (auth_posts w)"
  by (auto simp: auth_fetch_def time_time_def Let_def
           split: sum.splits if_splits option.splits)

lemma auth_fetch_success:
  "auth_fetch e w = (Inr t, w1) \<Longrightarrow> token_value w1 = Some t"
  by (auto simp: auth_fetch_def time_time_def Let_def
           split: sum.splits if_splits option.splits)

lemma auth_fetch_failure:
  "auth_fetch e w = (Inl ex, w1) \<Longrightarrow>
   token_value w1 = token_value w \<and> expires_at w1 = expires_at w"
  by (auto simp: auth_fetch_def time_time_def Let_def
           split: sum.splits if_splits option.splits)

lemma auth_token_frame:
  "auth_token e w = (r, w1) \<Longrightarrow> sent w1 = sent w \<and> slept w1 = slept w"
  by (auto simp: auth_token_def time_time_def Let_def
           split: sum.splits if_splits option.splits prod.splits
           dest: auth_fetch_frame)

lemma auth_token_success_credentials:
  "auth_token e w = (Inr t, w1) \<Longrightarrow> \<not> credentials_missing (cfg e)"
  by (auto simp: auth_token_def)

lemma auth_token_cached:
  assumes "\<not> credentials_missing (cfg e)" "token_value w = Some t" "token_fresh e w"
  shows "\<exists>w1. auth_token e w = (Inr t, w1) \<and> auth_posts w1 = auth_posts w \<and>
              sent w1 = sent w \<and> token_value w1 = Some t \<and> expires_at w1 = expires_at w"
  using assms
  by (auto simp: auth_token_def token_fresh_def time_time_def split: option.splits)

lemma no_access_token_message:
  "sublist ''No access_token'' ''No access_token in response''"
  by (rule prefix_imp_sublist) simp

text \<open>
  Claim C7. A token cache whose configuration lacks the username or the access key
  fails \<open>getToken()\<close> at once with a configuration error: the state is untouched, so no
  credential exchange and no other network call was made.
\<close>

theorem getToken_missing_credentials:
  assumes "username (cfg e) = None \<or> access_key (cfg e) = None"
  shows "(\<exists>msg. fst (auth_token e w) = Inl (ConfigurationError msg)) \<and>
         snd (auth_token e w) = w \<and>
         auth_posts (snd (auth_token e w)) = auth_posts w \<and>
         sent (snd (auth_token e w)) = sent w"
proof -
  from assms have "credentials_missing (cfg e)"
    by (auto simp: credentials_missing_def)
  then show ?thesis
    by (simp add: auth_token_missing)
qed

theorem getToken_missing_credentials_witness:
  "(username (cfg no_credentials_env) = None \<or> access_key (cfg no_credentials_env) = None) \<and>
   fst (auth_token no_credentials_env initial_world) =
     Inl (ConfigurationError ''username, access_key and partner_id are required'') \<and>
   auth_posts (snd (auth_token no_credentials_env initial_world)) = 0 \<and>
   sent (snd (auth_token no_credentials_env initial_world)) = []"
  using getToken_missing_credentials [of no_credentials_env initial_world]
  by (simp add: no_credentials_env_def mock_env_def mock_config_def initial_world_def
        auth_token_def credentials_missing_def)

text \<open>
  Claim C6. When \<open>getToken()\<close> has to fetch (credentials present, and no cached token or
  one that is not fresh) and the token endpoint answers 200 with a payload that lacks
  \<open>access_token\<close>, it fails with a response error of status 500 whose message contains
  "No access_token"; the exchange took place and the cache is as it was, so no token was
  cached.
\<close>

theorem getToken_no_access_token:
  assumes "token_endpoint e (auth_posts w) = Inr r"
    and "auth_status r = 200"
    and "access_token r = None"
    and "\<not> credentials_missing (cfg e)"
    and "token_value w = None \<or> \<not> token_fresh e w"
  shows "\<exists>msg w1. auth_token e w = (Inl (APIResponseError 500 msg), w1) \<and>
           sublist ''No access_token'' msg \<and>
           token_value w1 = token_value w \<and> expires_at w1 = expires_at w \<and>
           auth_posts w1 = Suc (auth_posts w)"
  using assms no_access_token_message
  by (auto simp: auth_token_def auth_fetch_def token_fresh_def time_time_def Let_def
        split: option.splits)

theorem getToken_no_access_token_witness:
  "token_endpoint no_token_env (auth_posts initial_world) = Inr no_token_response \<and>
   auth_status no_token_response = 200 \<and>
   access_token no_token_response = None \<and>
   \<not> credentials_missing (cfg no_token_env) \<and>
   token_value initial_world = None \<and>
   fst (auth_token no_token_env initial_world) =
     Inl (APIResponseError 500 ''No access_token in response'') \<and>
   token_value (snd (auth_token no_token_env initial_world)) = None \<and>
   auth_posts (snd (auth_token no_token_env initial_world)) = 1"
  using getToken_no_access_token [of no_token_env initial_world no_token_response]
  by (simp add: no_token_env_def mock_env_def mock_config_def initial_world_def
        no_token_response_def auth_token_def auth_fetch_def credentials_missing_def)

lemma token_fresh_iff:
  "token_fresh e w \<longleftrightarrow> (\<exists>x. expires_at w = Some x \<and> clock e (clock_reads w) < x)"
  by (auto simp: token_fresh_def split: option.splits)

lemma auth_fetch_exchanged:
  "auth_fetch e w = (Inr t, w1) \<Longrightarrow> exchanged_token e (auth_posts w) = Some t"
  by (auto simp: auth_fetch_def exchanged_token_def time_time_def Let_def
           split: sum.splits if_splits option.splits)

lemma auth_token_posts:
  "auth_token e w = (r, w1) \<Longrightarrow>
   auth_posts w \<le> auth_posts w1 \<and> auth_posts w1 \<le> Suc (auth_posts w)"
  by (auto simp: auth_token_def time_time_def Let_def
           split: if_splits option.splits prod.splits
           dest!: auth_fetch_frame)

lemma auth_fetch_latest_exchange:
  assumes "auth_fetch e w = (Inr t, w1)"
  shows "token_value w1 = Some t \<and> exchanged_token e (auth_posts w1 - 1) = Some t"
proof -
  have "auth_posts w1 = Suc (auth_posts w)"
    using auth_fetch_frame [OF assms] by simp
  then show ?thesis
    using auth_fetch_success [OF assms] auth_fetch_exchanged [OF assms] by simp
qed

lemma auth_token_latest_exchange:
  assumes "auth_token e w = (Inr t, w1)"
    and "\<forall>t0. token_value w = Some t0 \<longrightarrow> exchanged_token e (auth_posts w - 1) = Some t0"
  shows "token_value w1 = Some t \<and> exchanged_token e (auth_posts w1 - 1) = Some t"
proof (cases "token_value w \<noteq> None \<and> token_fresh e w")
  case True
  then obtain t0 x where c: "token_value w = Some t0" "expires_at w = Some x"
      "clock e (clock_reads w) < x"
    by (auto simp: token_fresh_iff)
  with assms(1) have "t = t0" "w1 = w\<lparr>clock_reads := Suc (clock_reads w)\<rparr>"
    by (auto simp: auth_token_def time_time_def split: if_splits)
  with c assms(2) show ?thesis by simp
next
  case False
  then have "auth_token e w = auth_fetch e w \<or>
      auth_token e w = auth_fetch e (w\<lparr>clock_reads := Suc (clock_reads w)\<rparr>) \<or>
      (\<exists>ex. auth_token e w = (Inl ex, w))"
    by (auto simp: auth_token_def token_fresh_def time_time_def split: option.splits)
  with assms(1) show ?thesis
    using auth_fetch_latest_exchange by auto
qed


section \<open>Properties of the transport\<close>

lemma handle_outcome_not_retryable:
  "handle_outcome r = Inl ex \<Longrightarrow> \<not> retry_if_exception_type ex"
  by (auto simp: handle_outcome_def retry_if_exception_type_def
           split: sum.splits exn.splits if_splits)

lemma request_attempt_not_retryable:
  "request_attempt e m u kw w = (Inl ex, w1) \<Longrightarrow> \<not> retry_if_exception_type ex"
  by (auto simp: request_attempt_def split: prod.splits
           dest: handle_outcome_not_retryable)

lemma tenacity_retry_not_retryable:
  assumes "\<And>ex w1. f w = (Inl ex, w1) \<Longrightarrow> \<not> retry_if_exception_type ex"
  shows "tenacity_retry f attempt left w = f w"
  using assms by (cases left) (auto split: prod.splits sum.splits)

lemma request_is_single_attempt:
  "request e m u kw w = request_attempt e m u kw w"
  unfolding request_def
  by (rule tenacity_retry_not_retryable) (rule request_attempt_not_retryable)

lemmas fixture_defs =
  mock_env_def mock_config_def initial_world_def token_response_def plain_response_def
  no_kwargs_def custom_kwargs_def test_url_def unauthorized_once_def

lemmas transport_defs =
  request_attempt_def try_block_def transport_headers_def pop_headers_def caller_headers_def
  client_request_def issued_call_def handle_outcome_def AList.merge_def
  auth_token_def auth_fetch_def credentials_missing_def time_time_def

lemma transport_headers_success:
  "auth_token e w = (Inr tok, w1) \<Longrightarrow>
   transport_headers e w = (Inr (bearer_headers e tok), w1)"
  by (simp add: transport_headers_def bearer_headers_def AList.merge_def)

lemma transport_headers_failure:
  "auth_token e w = (Inl ex, w1) \<Longrightarrow> transport_headers e w = (Inl ex, w1)"
  by (simp add: transport_headers_def)

lemma merge_no_headers: "AList.merge h [] = h"
  by (simp add: AList.merge_def)

lemma try_block_first_raises:
  assumes "auth_token e w = (Inr tok, w1)"
    and "server e (sent w @
           [issued_call m u (AList.merge (bearer_headers e tok) (caller_headers kw)) kw]) =
         Inl ex"
  shows "try_block e m u kw w =
    (Inl ex, w1\<lparr>sent := sent w @
       [issued_call m u (AList.merge (bearer_headers e tok) (caller_headers kw)) kw]\<rparr>)"
proof -
  have s: "sent w1 = sent w" using assms(1) auth_token_frame by blast
  show ?thesis
    using assms(2)
    by (simp add: try_block_def transport_headers_success [OF assms(1)] pop_headers_def
          client_request_def s issued_call_def)
qed

lemma try_block_401:
  assumes tok1: "auth_token e w = (Inr t1, w1)"
    and c1: "c1 = issued_call m u (AList.merge (bearer_headers e t1) (caller_headers kw)) kw"
    and first: "server e (sent w @ [c1]) = Inr r1" "status_code r1 = 401"
    and refetch: "auth_fetch e (w1\<lparr>sent := sent w @ [c1]\<rparr>) = (Inr t2, w3)"
    and tok2: "auth_token e w3 = (Inr t3, w4)"
    and c2: "c2 = issued_call m u (bearer_headers e t3) kw"
  shows "try_block e m u kw w =
           (server e (sent w @ [c1, c2]), w4\<lparr>sent := sent w @ [c1, c2]\<rparr>)"
proof -
  have s1: "sent w1 = sent w" using tok1 auth_token_frame by blast
  have s3: "sent w3 = sent w @ [c1]" using auth_fetch_frame [OF refetch] by simp
  have s4: "sent w4 = sent w @ [c1]" using tok2 auth_token_frame s3 by metis
  show ?thesis
    using first refetch
    by (simp add: try_block_def transport_headers_success [OF tok1]
          transport_headers_success [OF tok2] pop_headers_def caller_headers_def
          client_request_def s1 s4 c1 c2 issued_call_def merge_no_headers)
qed

lemma try_block_401_refetch_fails:
  assumes tok1: "auth_token e w = (Inr t1, w1)"
    and c1: "c1 = issued_call m u (AList.merge (bearer_headers e t1) (caller_headers kw)) kw"
    and first: "server e (sent w @ [c1]) = Inr r1" "status_code r1 = 401"
    and refetch: "auth_fetch e (w1\<lparr>sent := sent w @ [c1]\<rparr>) = (Inl ex, w3)"
  shows "try_block e m u kw w = (Inl ex, w3)"
proof -
  have s1: "sent w1 = sent w" using tok1 auth_token_frame by blast
  show ?thesis
    using first refetch
    by (simp add: try_block_def transport_headers_success [OF tok1] pop_headers_def
          client_request_def s1 c1 issued_call_def)
qed

lemma try_block_401_headers_fail:
  assumes tok1: "auth_token e w = (Inr t1, w1)"
    and c1: "c1 = issued_call m u (AList.merge (bearer_headers e t1) (caller_headers kw)) kw"
    and first: "server e (sent w @ [c1]) = Inr r1" "status_code r1 = 401"
    and refetch: "auth_fetch e (w1\<lparr>sent := sent w @ [c1]\<rparr>) = (Inr t2, w3)"
    and tok2: "auth_token e w3 = (Inl ex, w4)"
  shows "try_block e m u kw w = (Inl ex, w4)"
proof -
  have s1: "sent w1 = sent w" using tok1 auth_token_frame by blast
  show ?thesis
    using first refetch
    by (simp add: try_block_def transport_headers_success [OF tok1]
          transport_headers_failure [OF tok2] pop_headers_def client_request_def s1 c1
          issued_call_def)
qed

lemma try_block_slept: "try_block e m u kw w = (r, w1) \<Longrightarrow> slept w1 = slept w"
  by (auto simp: try_block_def transport_headers_def client_request_def pop_headers_def Let_def
      split: prod.splits sum.splits if_splits
      dest!: auth_token_frame auth_fetch_frame)

lemma try_block_response:
  "try_block e m u kw w = (Inr resp, w1) \<Longrightarrow> server e (sent w1) = Inr resp"
  by (auto simp: try_block_def transport_headers_def client_request_def pop_headers_def Let_def
      split: prod.splits sum.splits if_splits)

text \<open>
  Claim C1 (what the code does at the claim's own example). Every call is reset while
  connecting (\<open>httpx.ConnectError\<close>). The \<open>except httpx.HTTPError\<close> clause inside the
  function turns the exception into \<open>APIConnectionError\<close> before the decorator sees it,
  so nothing is retried: one call is issued, no backoff wait happens, and the error
  surfaces after the first attempt, not after three.
\<close>

theorem request_connect_reset_single_attempt:
  "fst (request connect_reset_env ''GET'' test_url no_kwargs initial_world) =
     Inl (APIConnectionError ''Connection reset'') \<and>
   length (sent (snd (request connect_reset_env ''GET'' test_url no_kwargs initial_world))) = 1 \<and>
   slept (snd (request connect_reset_env ''GET'' test_url no_kwargs initial_world)) = []"
  by (simp add: request_is_single_attempt connect_reset_env_def transport_defs fixture_defs)

text \<open>
  Claim C2 (what the code does at a failing input). The caller passes
  \<open>{"X-Custom-Header": "v"}\<close> and the first response is 401. The first call carries the
  caller's header next to \<open>Partner-Id\<close> and \<open>Authorization\<close>; the retried call does not,
  because the first \<open>kwargs.pop("headers", {})\<close> removed the headers from the kwargs the
  second one reads.
\<close>

theorem request_401_retry_drops_caller_headers:
  "fst (request retry_401_env ''GET'' test_url custom_kwargs initial_world) =
     Inr (plain_response 200 ''OK'') \<and>
   map call_headers
     (sent (snd (request retry_401_env ''GET'' test_url custom_kwargs initial_world))) =
     [[(''Partner-Id'', ''test_partner''), (''Authorization'', ''Bearer old_token''),
       (''X-Custom-Header'', ''v'')],
      [(''Partner-Id'', ''test_partner''), (''Authorization'', ''Bearer new_token'')]]"
  by (simp add: request_is_single_attempt retry_401_env_def transport_defs fixture_defs)

text \<open>
  Claim C3 as stated fails when the forced refetch fails: the first response is 401, the
  second credential exchange is answered 500, and \<open>request\<close> ends with that response
  error after a single HTTP call; no call is re-issued.
\<close>

theorem request_401_refetch_failure_counterexample:
  "server refetch_fails_env
     (sent (snd (request refetch_fails_env ''GET'' test_url no_kwargs initial_world))) =
     Inr (plain_response 401 ''Unauthorized'') \<and>
   length (sent (snd (request refetch_fails_env ''GET'' test_url no_kwargs initial_world))) = 1 \<and>
   auth_posts (snd (request refetch_fails_env ''GET'' test_url no_kwargs initial_world)) = 2 \<and>
   fst (request refetch_fails_env ''GET'' test_url no_kwargs initial_world) =
     Inl (APIResponseError 500 ''Internal Server Error'')"
  by (simp add: request_is_single_attempt refetch_fails_env_def transport_defs fixture_defs)

text \<open>
  Claim C3, amended. When the first completed response is 401, \<open>request\<close> makes exactly
  one forced refetch, on the state the first call left. If the refetch raises, or the
  rebuilding of the headers after it raises, no call is re-issued and the exception is
  handled as any exception of the \<open>try\<close> is: an httpx connect timeout becomes
  \<open>APITimeoutError\<close>, any other httpx error \<open>APIConnectionError\<close>, anything else
  propagates. Otherwise exactly one more call is issued. Its headers are \<open>Partner-Id\<close>
  and \<open>Authorization: Bearer\<close> with the token of the latest credential exchange, which
  was made after the 401: the forced refetch, or one more exchange the cache makes
  while the headers are rebuilt, and none when the refetched token has an expiry that
  lies in the future. The outcome of the second call is classified with no further 401
  handling: a response with status \<open>>= 400\<close> (a second 401 included) raises the response
  error with that status and body text, any other response is returned.
\<close>

theorem request_401_refetch_retry:
  assumes tok1: "auth_token e w = (Inr t1, w1)"
    and c1: "c1 = issued_call m u (AList.merge (bearer_headers e t1) (caller_headers kw)) kw"
    and first: "server e (sent w @ [c1]) = Inr r1" "status_code r1 = 401"
  shows "(auth_fetch e (w1\<lparr>sent := sent w @ [c1]\<rparr>) = (Inl exa, wa) \<longrightarrow>
            request e m u kw w = (handle_outcome (Inl exa), wa) \<and>
            sent wa = sent w @ [c1] \<and> auth_posts wa = Suc (auth_posts w1)) \<and>
         (auth_fetch e (w1\<lparr>sent := sent w @ [c1]\<rparr>) = (Inr tb, wb) \<and>
          auth_token e wb = (Inl exb, wc) \<longrightarrow>
            request e m u kw w = (handle_outcome (Inl exb), wc) \<and>
            sent wc = sent w @ [c1] \<and> auth_posts wb = Suc (auth_posts w1)) \<and>
         (auth_fetch e (w1\<lparr>sent := sent w @ [c1]\<rparr>) = (Inr t2, w3) \<and>
          auth_token e w3 = (Inr t3, w4) \<and>
          c2 = issued_call m u (bearer_headers e t3) kw \<longrightarrow>
            request e m u kw w =
              (handle_outcome (server e (sent w @ [c1, c2])),
               w4\<lparr>sent := sent w @ [c1, c2]\<rparr>) \<and>
            auth_posts w3 = Suc (auth_posts w1) \<and>
            auth_posts w3 \<le> auth_posts w4 \<and> auth_posts w4 \<le> Suc (auth_posts w3) \<and>
            exchanged_token e (auth_posts w4 - 1) = Some t3 \<and>
            (token_fresh e w3 \<longrightarrow> t3 = t2 \<and> auth_posts w4 = auth_posts w3) \<and>
            (\<forall>r2. server e (sent w @ [c1, c2]) = Inr r2 \<longrightarrow>
               fst (request e m u kw w) =
                 (if status_code r2 \<ge> 400
                  then Inl (APIResponseError (status_code r2) (body_text r2))
                  else Inr r2)))"
    (is "(?HA \<longrightarrow> ?CA) \<and> (?HB \<longrightarrow> ?CB) \<and> (?HC \<longrightarrow> ?CC)")
proof (intro conjI)
  show "?HA \<longrightarrow> ?CA"
  proof (intro impI conjI)
    assume refetch: ?HA
    show "request e m u kw w = (handle_outcome (Inl exa), wa)"
      by (simp add: request_is_single_attempt request_attempt_def
            try_block_401_refetch_fails [OF tok1 c1 first refetch])
    show "sent wa = sent w @ [c1]"
      using auth_fetch_frame [OF refetch] by simp
    show "auth_posts wa = Suc (auth_posts w1)"
      using auth_fetch_frame [OF refetch] by simp
  qed
  show "?HB \<longrightarrow> ?CB"
  proof (intro impI conjI)
    assume ?HB
    then have refetch: "auth_fetch e (w1\<lparr>sent := sent w @ [c1]\<rparr>) = (Inr tb, wb)"
      and tok2: "auth_token e wb = (Inl exb, wc)"
      by simp_all
    show "request e m u kw w = (handle_outcome (Inl exb), wc)"
      by (simp add: request_is_single_attempt request_attempt_def
            try_block_401_headers_fail [OF tok1 c1 first refetch tok2])
    have "sent wb = sent w @ [c1]"
      using auth_fetch_frame [OF refetch] by simp
    then show "sent wc = sent w @ [c1]"
      using auth_token_frame [OF tok2] by simp
    show "auth_posts wb = Suc (auth_posts w1)"
      using auth_fetch_frame [OF refetch] by simp
  qed
  show "?HC \<longrightarrow> ?CC"
  proof
    assume ?HC
    then have refetch: "auth_fetch e (w1\<lparr>sent := sent w @ [c1]\<rparr>) = (Inr t2, w3)"
      and tok2: "auth_token e w3 = (Inr t3, w4)"
      and c2: "c2 = issued_call m u (bearer_headers e t3) kw"
      by simp_all
    have latest: "token_value w3 = Some t2 \<and> exchanged_token e (auth_posts w3 - 1) = Some t2"
      using refetch by (rule auth_fetch_latest_exchange)
    show ?CC
    proof (intro conjI)
      show req: "request e m u kw w =
          (handle_outcome (server e (sent w @ [c1, c2])), w4\<lparr>sent := sent w @ [c1, c2]\<rparr>)"
        by (simp add: request_is_single_attempt request_attempt_def
              try_block_401 [OF tok1 c1 first refetch tok2 c2])
      show "auth_posts w3 = Suc (auth_posts w1)"
        using auth_fetch_frame [OF refetch] by simp
      show "auth_posts w3 \<le> auth_posts w4"
        using auth_token_posts [OF tok2] by simp
      show "auth_posts w4 \<le> Suc (auth_posts w3)"
        using auth_token_posts [OF tok2] by simp
      show "exchanged_token e (auth_posts w4 - 1) = Some t3"
        using auth_token_latest_exchange [OF tok2] latest by simp
      show "token_fresh e w3 \<longrightarrow> t3 = t2 \<and> auth_posts w4 = auth_posts w3"
      proof
        assume "token_fresh e w3"
        with auth_token_cached [OF auth_token_success_credentials [OF tok1]] latest
        obtain w5 where "auth_token e w3 = (Inr t2, w5)" "auth_posts w5 = auth_posts w3"
          by blast
        with tok2 show "t3 = t2 \<and> auth_posts w4 = auth_posts w3" by simp
      qed
      show "\<forall>r2. server e (sent w @ [c1, c2]) = Inr r2 \<longrightarrow>
          fst (request e m u kw w) =
            (if status_code r2 \<ge> 400
             then Inl (APIResponseError (status_code r2) (body_text r2)) else Inr r2)"
        by (simp add: req handle_outcome_def)
    qed
  qed
qed

lemmas eval_defs =
  retry_401_env_def refetch_unreachable_env_def no_expiry_retry_env_def
  transport_defs fixture_defs bearer_headers_def exchanged_token_def

theorem request_401_refetch_retry_witness:
  "fst (request retry_401_env ''GET'' test_url custom_kwargs initial_world) =
     Inr (plain_response 200 ''OK'') \<and>
   length (sent (snd (request retry_401_env ''GET'' test_url custom_kwargs initial_world))) = 2 \<and>
   auth_posts (snd (request retry_401_env ''GET'' test_url custom_kwargs initial_world)) = 2 \<and>
   exchanged_token retry_401_env 1 = Some ''new_token'' \<and>
   map_of (call_headers
     (last (sent (snd (request retry_401_env ''GET'' test_url custom_kwargs initial_world)))))
     ''Authorization'' = Some ''Bearer new_token'' \<and>
   fst (request refetch_unreachable_env ''GET'' test_url no_kwargs initial_world) =
     Inl (APIConnectionError ''auth down'') \<and>
   length (sent (snd (request refetch_unreachable_env ''GET'' test_url no_kwargs
     initial_world))) = 1 \<and>
   fst (request no_expiry_retry_env ''GET'' test_url no_kwargs initial_world) =
     Inr (plain_response 200 ''OK'') \<and>
   auth_posts (snd (request no_expiry_retry_env ''GET'' test_url no_kwargs initial_world)) = 3 \<and>
   exchanged_token no_expiry_retry_env 2 = Some ''token_2'' \<and>
   map_of (call_headers
     (last (sent (snd (request no_expiry_retry_env ''GET'' test_url no_kwargs initial_world)))))
     ''Authorization'' = Some ''Bearer token_2''"
proof -
  let ?r401 = "plain_response 401 ''Unauthorized''"
  have st: "status_code ?r401 = 401" by (simp add: plain_response_def)

  \<comment> \<open>the refetch succeeds and the refetched token has an expiry in the future\<close>
  let ?R = retry_401_env
  let ?w1 = "snd (auth_token ?R initial_world)"
  let ?c1 = "issued_call ''GET'' test_url
     (AList.merge (bearer_headers ?R ''old_token'') (caller_headers custom_kwargs)) custom_kwargs"
  let ?w3 = "snd (auth_fetch ?R (?w1\<lparr>sent := sent initial_world @ [?c1]\<rparr>))"
  let ?w4 = "snd (auth_token ?R ?w3)"
  let ?c2 = "issued_call ''GET'' test_url (bearer_headers ?R ''new_token'') custom_kwargs"
  have tok1: "auth_token ?R initial_world = (Inr ''old_token'', ?w1)"
    by (simp add: prod_eq_iff eval_defs)
  have first: "server ?R (sent initial_world @ [?c1]) = Inr ?r401"
    by (simp add: eval_defs)
  have refetch: "auth_fetch ?R (?w1\<lparr>sent := sent initial_world @ [?c1]\<rparr>) = (Inr ''new_token'', ?w3)"
    by (simp add: prod_eq_iff eval_defs)
  have tok2: "auth_token ?R ?w3 = (Inr ''new_token'', ?w4)"
    by (simp add: prod_eq_iff eval_defs)
  have fresh: "token_fresh ?R ?w3"
    by (simp add: token_fresh_def eval_defs)
  note R = request_401_refetch_retry [OF tok1 refl first st, THEN conjunct2, THEN conjunct2,
      THEN mp, OF conjI [OF refetch conjI [OF tok2 refl]]]
  have second: "server ?R (sent initial_world @ [?c1, ?c2]) = Inr (plain_response 200 ''OK'')"
    by (simp add: eval_defs)
  have posts1: "auth_posts ?w1 = 1"
    by (simp add: eval_defs)
  from R have req: "request ?R ''GET'' test_url custom_kwargs initial_world =
      (handle_outcome (server ?R (sent initial_world @ [?c1, ?c2])),
       ?w4\<lparr>sent := sent initial_world @ [?c1, ?c2]\<rparr>)"
    by (rule conjunct1)
  from R have p3: "auth_posts ?w3 = Suc (auth_posts ?w1)" by blast
  from R fresh have p4: "auth_posts ?w4 = auth_posts ?w3" by blast
  from R have ex: "exchanged_token ?R (auth_posts ?w4 - 1) = Some ''new_token''" by blast
  from req second have a1: "fst (request retry_401_env ''GET'' test_url custom_kwargs initial_world) =
      Inr (plain_response 200 ''OK'')"
    by (simp add: handle_outcome_def plain_response_def)
  from req have a2: "length (sent (snd (request retry_401_env ''GET'' test_url custom_kwargs
      initial_world))) = 2"
    by (simp add: initial_world_def)
  have a3: "auth_posts (snd (request retry_401_env ''GET'' test_url
      custom_kwargs initial_world)) = 2"
    by (simp add: req p4 p3 posts1)
  from ex have a4: "exchanged_token retry_401_env 1 = Some ''new_token''"
    by (simp add: p4 p3 posts1)
  from req have a5: "map_of (call_headers (last (sent (snd (request retry_401_env ''GET'' test_url
      custom_kwargs initial_world))))) ''Authorization'' = Some ''Bearer new_token''"
    by (simp add: issued_call_def bearer_headers_def)

  \<comment> \<open>the refetch ends with a connection error\<close>
  let ?U = refetch_unreachable_env
  let ?u1 = "snd (auth_token ?U initial_world)"
  let ?d1 = "issued_call ''GET'' test_url
     (AList.merge (bearer_headers ?U ''old_token'') (caller_headers no_kwargs)) no_kwargs"
  let ?u3 = "snd (auth_fetch ?U (?u1\<lparr>sent := sent initial_world @ [?d1]\<rparr>))"
  have tokU: "auth_token ?U initial_world = (Inr ''old_token'', ?u1)"
    by (simp add: prod_eq_iff eval_defs)
  have firstU: "server ?U (sent initial_world @ [?d1]) = Inr ?r401"
    by (simp add: eval_defs)
  have refetchU: "auth_fetch ?U (?u1\<lparr>sent := sent initial_world @ [?d1]\<rparr>) =
      (Inl (Httpx ConnectError ''auth down''), ?u3)"
    by (simp add: prod_eq_iff eval_defs)
  note U = request_401_refetch_retry [OF tokU refl firstU st, THEN conjunct1, THEN mp,
      OF refetchU]
  from U have reqU: "request ?U ''GET'' test_url no_kwargs initial_world =
      (handle_outcome (Inl (Httpx ConnectError ''auth down'')), ?u3)"
    by (rule conjunct1)
  from U have sentU: "sent ?u3 = sent initial_world @ [?d1]" by blast
  from reqU have b1: "fst (request refetch_unreachable_env ''GET'' test_url no_kwargs initial_world) =
      Inl (APIConnectionError ''auth down'')"
    by (simp add: handle_outcome_def)
  from reqU sentU have b2: "length (sent (snd (request refetch_unreachable_env ''GET'' test_url
      no_kwargs initial_world))) = 1"
    by (simp add: initial_world_def)

  \<comment> \<open>the refetched token has no expiry, and the cache fetches once more\<close>
  let ?N = no_expiry_retry_env
  let ?n1 = "snd (auth_token ?N initial_world)"
  let ?e1 = "issued_call ''GET'' test_url
     (AList.merge (bearer_headers ?N ''token_0'') (caller_headers no_kwargs)) no_kwargs"
  let ?n3 = "snd (auth_fetch ?N (?n1\<lparr>sent := sent initial_world @ [?e1]\<rparr>))"
  let ?n4 = "snd (auth_token ?N ?n3)"
  let ?e2 = "issued_call ''GET'' test_url (bearer_headers ?N ''token_2'') no_kwargs"
  have tokN: "auth_token ?N initial_world = (Inr ''token_0'', ?n1)"
    by (simp add: prod_eq_iff eval_defs)
  have firstN: "server ?N (sent initial_world @ [?e1]) = Inr ?r401"
    by (simp add: eval_defs)
  have refetchN: "auth_fetch ?N (?n1\<lparr>sent := sent initial_world @ [?e1]\<rparr>) = (Inr ''token_1'', ?n3)"
    by (simp add: prod_eq_iff eval_defs)
  have tok2N: "auth_token ?N ?n3 = (Inr ''token_2'', ?n4)"
    by (simp add: prod_eq_iff eval_defs)
  note N = request_401_refetch_retry [OF tokN refl firstN st, THEN conjunct2, THEN conjunct2,
      THEN mp, OF conjI [OF refetchN conjI [OF tok2N refl]]]
  have secondN: "server ?N (sent initial_world @ [?e1, ?e2]) = Inr (plain_response 200 ''OK'')"
    by (simp add: eval_defs)
  have postsN: "auth_posts ?n4 = 3"
    by (simp add: eval_defs)
  from N have reqN: "request ?N ''GET'' test_url no_kwargs initial_world =
      (handle_outcome (server ?N (sent initial_world @ [?e1, ?e2])),
       ?n4\<lparr>sent := sent initial_world @ [?e1, ?e2]\<rparr>)"
    by (rule conjunct1)
  from N have exN: "exchanged_token ?N (auth_posts ?n4 - 1) = Some ''token_2''" by blast
  from reqN secondN have c1: "fst (request no_expiry_retry_env ''GET'' test_url no_kwargs
      initial_world) = Inr (plain_response 200 ''OK'')"
    by (simp add: handle_outcome_def plain_response_def)
  have c2: "auth_posts (snd (request no_expiry_retry_env ''GET'' test_url no_kwargs
      initial_world)) = 3"
    by (simp add: reqN postsN)
  from exN have c3: "exchanged_token no_expiry_retry_env 2 = Some ''token_2''"
    by (simp add: postsN)
  from reqN have c4: "map_of (call_headers (last (sent (snd (request no_expiry_retry_env ''GET''
      test_url no_kwargs initial_world))))) ''Authorization'' = Some ''Bearer token_2''"
    by (simp add: issued_call_def bearer_headers_def)
  from a1 a2 a3 a4 a5 b1 b2 c1 c2 c3 c4 show ?thesis
    by (intro conjI)
qed

text \<open>
  Claim C4. A connect timeout raised anywhere inside the \<open>try\<close> ends \<open>request\<close> at once
  with \<open>APITimeoutError\<close> carrying its message: the state is the one that single run of
  the body left, and no backoff wait was made. In particular, when the first call
  times out while connecting, that call is the only one issued.
\<close>

theorem request_connect_timeout:
  "(try_block e m u kw w = (Inl (Httpx ConnectTimeout msg), w1) \<longrightarrow>
      request e m u kw w = (Inl (APITimeoutError msg), w1) \<and> slept w1 = slept w) \<and>
   (auth_token e w = (Inr tok, w0) \<and>
    c = issued_call m u (AList.merge (bearer_headers e tok) (caller_headers kw)) kw \<and>
    server e (sent w @ [c]) = Inl (Httpx ConnectTimeout msg) \<longrightarrow>
      request e m u kw w = (Inl (APITimeoutError msg), w0\<lparr>sent := sent w @ [c]\<rparr>))"
proof (intro conjI impI)
  assume h: "try_block e m u kw w = (Inl (Httpx ConnectTimeout msg), w1)"
  then show "request e m u kw w = (Inl (APITimeoutError msg), w1)"
    by (simp add: request_is_single_attempt request_attempt_def handle_outcome_def)
  from h show "slept w1 = slept w" by (rule try_block_slept)
next
  assume h: "auth_token e w = (Inr tok, w0) \<and>
    c = issued_call m u (AList.merge (bearer_headers e tok) (caller_headers kw)) kw \<and>
    server e (sent w @ [c]) = Inl (Httpx ConnectTimeout msg)"
  then have "try_block e m u kw w =
      (Inl (Httpx ConnectTimeout msg), w0\<lparr>sent := sent w @ [c]\<rparr>)"
    using try_block_first_raises by blast
  then show "request e m u kw w = (Inl (APITimeoutError msg), w0\<lparr>sent := sent w @ [c]\<rparr>)"
    by (simp add: request_is_single_attempt request_attempt_def handle_outcome_def)
qed

theorem request_connect_timeout_witness:
  "fst (auth_token connect_timeout_env initial_world) = Inr ''test_token_12345'' \<and>
   try_block connect_timeout_env ''GET'' test_url no_kwargs initial_world =
     (Inl (Httpx ConnectTimeout ''Connection timeout''),
      snd (try_block connect_timeout_env ''GET'' test_url no_kwargs initial_world)) \<and>
   fst (request connect_timeout_env ''GET'' test_url no_kwargs initial_world) =
     Inl (APITimeoutError ''Connection timeout'') \<and>
   length (sent (snd (request connect_timeout_env ''GET'' test_url no_kwargs initial_world))) = 1 \<and>
   slept (snd (request connect_timeout_env ''GET'' test_url no_kwargs initial_world)) = []"
  using request_connect_timeout
    [where e = connect_timeout_env and w = initial_world and m = "''GET''" and u = test_url
       and kw = no_kwargs and msg = "''Connection timeout''" and tok = "''test_token_12345''"
       and ?w1.0 = "snd (try_block connect_timeout_env ''GET'' test_url no_kwargs initial_world)"
       and ?w0.0 = "snd (auth_token connect_timeout_env initial_world)"
       and c = "issued_call ''GET'' test_url
          (AList.merge (bearer_headers connect_timeout_env ''test_token_12345'')
             (caller_headers no_kwargs)) no_kwargs"]
  by (simp add: request_is_single_attempt connect_timeout_env_def transport_defs fixture_defs
        bearer_headers_def)

text \<open>
  Claim C5. When the body of \<open>request\<close> obtains a final response (the first one, or the
  second one after a 401), which is the server's answer to the last call issued, a
  status \<open>>= 400\<close> raises \<open>APIResponseError\<close> with exactly that status and the body text,
  and any lower status returns the response unchanged.
\<close>

theorem request_classifies_final_response:
  assumes "try_block e m u kw w = (Inr resp, w1)"
  shows "request e m u kw w =
           (if status_code resp \<ge> 400
            then Inl (APIResponseError (status_code resp) (body_text resp))
            else Inr resp, w1) \<and>
         server e (sent w1) = Inr resp"
  using assms try_block_response [OF assms]
  by (simp add: request_is_single_attempt request_attempt_def handle_outcome_def)

theorem request_classifies_final_response_witness:
  "fst (try_block (status_env 400 ''Bad Request'') ''GET'' test_url no_kwargs initial_world) =
     Inr (plain_response 400 ''Bad Request'') \<and>
   fst (request (status_env 400 ''Bad Request'') ''GET'' test_url no_kwargs initial_world) =
     Inl (APIResponseError 400 ''Bad Request'') \<and>
   fst (try_block (status_env 399 ''Almost'') ''GET'' test_url no_kwargs initial_world) =
     Inr (plain_response 399 ''Almost'') \<and>
   fst (request (status_env 399 ''Almost'') ''GET'' test_url no_kwargs initial_world) =
     Inr (plain_response 399 ''Almost'')"
  using request_classifies_final_response
    [where e = "status_env 400 ''Bad Request''" and w = initial_world and m = "''GET''"
       and u = test_url and kw = no_kwargs and resp = "plain_response 400 ''Bad Request''"
       and ?w1.0 = "snd (try_block (status_env 400 ''Bad Request'') ''GET'' test_url no_kwargs
          initial_world)"]
    request_classifies_final_response
    [where e = "status_env 399 ''Almost''" and w = initial_world and m = "''GET''"
       and u = test_url and kw = no_kwargs and resp = "plain_response 399 ''Almost''"
       and ?w1.0 = "snd (try_block (status_env 399 ''Almost'') ''GET'' test_url no_kwargs
          initial_world)"]
  by (simp add: request_is_single_attempt status_env_def transport_defs fixture_defs)

section \<open>The token cache in reachable states\<close>







section \<open>Properties of the resources\<close>

lemma list_items_by_key: "list_items data = items_by_key data"
  by (simp add: list_items_def items_by_key_def py_or_def dict_get_def split: option.splits)

lemma validate_list_empty: "validate_list validate (JArr []) = Inr []"
  by (simp add: validate_list_def)

text \<open>
  Claim C9. For a JSON object body, the items \<open>CustomersResource.list\<close> parses are the
  value under \<open>results\<close> if that key is present and truthy, otherwise the value under
  \<open>data\<close> if that key is present and truthy, otherwise the empty list; they are what
  is validated and yielded. A body with neither key yields no customer and no error.
\<close>

theorem customers_list_items:
  "list_items data = items_by_key data \<and>
   (req ''GET'' (base @ ''/v1/customers'') (list_kwargs created_start) w = (Inr r, w1) \<and>
    json_body r = Some (JObj data) \<longrightarrow>
      customers_list req validate base created_start w =
        (validate_list validate (items_by_key data), w1)) \<and>
   (req ''GET'' (base @ ''/v1/customers'') (list_kwargs created_start) w = (Inr r, w1) \<and>
    json_body r = Some (JObj data) \<and>
    map_of data ''results'' = None \<and> map_of data ''data'' = None \<longrightarrow>
      customers_list req validate base created_start w = (Inr [], w1))"
proof (intro conjI impI)
  show "list_items data = items_by_key data" by (rule list_items_by_key)
next
  assume "req ''GET'' (base @ ''/v1/customers'') (list_kwargs created_start) w = (Inr r, w1) \<and>
    json_body r = Some (JObj data)"
  then show "customers_list req validate base created_start w =
      (validate_list validate (items_by_key data), w1)"
    by (simp add: customers_list_def response_json_def list_items_by_key)
next
  assume h: "req ''GET'' (base @ ''/v1/customers'') (list_kwargs created_start) w = (Inr r, w1) \<and>
    json_body r = Some (JObj data) \<and>
    map_of data ''results'' = None \<and> map_of data ''data'' = None"
  then have "list_items data = JArr []"
    by (simp add: list_items_def py_or_def dict_get_def)
  with h show "customers_list req validate base created_start w = (Inr [], w1)"
    by (simp add: customers_list_def response_json_def validate_list_empty)
qed

theorem customers_list_items_witness:
  "map_of neither_key_body ''results'' = None \<and> map_of neither_key_body ''data'' = None \<and>
   customers_list (logging_request (json_response (JObj neither_key_body))) Some
     ''https://api.test.siigo.com'' None [] =
     (Inr [], [(''GET'', ''https://api.test.siigo.com/v1/customers'')]) \<and>
   items_by_key data_key_body = JArr [JObj [(''id'', JStr ''test-id'')]] \<and>
   customers_list (logging_request (json_response (JObj data_key_body))) Some
     ''https://api.test.siigo.com'' None [] =
     (Inr [JObj [(''id'', JStr ''test-id'')]],
      [(''GET'', ''https://api.test.siigo.com/v1/customers'')])"
  using customers_list_items
    [where req = "logging_request (json_response (JObj neither_key_body))"
       and base = "''https://api.test.siigo.com''" and created_start = None and w = "[]"
       and r = "json_response (JObj neither_key_body)"
       and ?w1.0 = "[(''GET'', ''https://api.test.siigo.com/v1/customers'')]"
       and data = neither_key_body and validate = Some]
    customers_list_items
    [where req = "logging_request (json_response (JObj data_key_body))"
       and base = "''https://api.test.siigo.com''" and created_start = None and w = "[]"
       and r = "json_response (JObj data_key_body)"
       and ?w1.0 = "[(''GET'', ''https://api.test.siigo.com/v1/customers'')]"
       and data = data_key_body and validate = Some]
  by (simp add: logging_request_def json_response_def neither_key_body_def data_key_body_def
        items_by_key_def validate_list_def)

lemma get_by_type_state:
  "snd (get_by_type req validate base webhook_type w) =
   snd (req ''GET'' (base @ ''/v1/webhooks'') no_kwargs w)"
  by (simp add: get_by_type_def no_kwargs_def
      split: prod.splits sum.splits option.splits)

text \<open>
  Claim C10 as stated fails when the lookup fails: with a server that answers 500,
  \<open>upsert\<close> on a mapped type and an http URL raises the response error of its single
  GET instead of returning \<open>None\<close>.
\<close>

theorem upsert_lookup_failure_counterexample:
  "''PRODUCTS_CREATE'' \<in> fst ` set webhook_type_map \<and> prefix ''http'' hook_url \<and>
   fst (upsert (request (status_env 500 ''Internal Server Error'')) Some
          (base_url mock_config) ''PRODUCTS_CREATE'' hook_url initial_world) =
     Inl (APIResponseError 500 ''Internal Server Error'') \<and>
   map call_method (sent (snd (upsert (request (status_env 500 ''Internal Server Error'')) Some
          (base_url mock_config) ''PRODUCTS_CREATE'' hook_url initial_world))) = [''GET'']"
  by (simp add: upsert_def get_by_type_def webhook_type_map_def hook_url_def
        request_is_single_attempt status_env_def transport_defs fixture_defs)

text \<open>
  Claim C10, amended. For a webhook type of \<open>webhook_type_map\<close> and a URL that starts
  with "http", \<open>upsert\<close> does the lookup of \<open>get_by_type\<close> and nothing else: its effect
  on the state is that of the one GET of the webhook collection (no create, no update
  request); when the lookup returns, with or without a match, \<open>upsert\<close> returns \<open>None\<close>,
  and when the lookup raises, that exception propagates. It never returns a \<open>Webhook\<close>.
\<close>

theorem upsert_lookup_only:
  assumes "webhook_type \<in> fst ` set webhook_type_map" and "prefix ''http'' url"
  shows "upsert req validate base webhook_type url w =
           (case get_by_type req validate base webhook_type w of
              (Inl ex, w1) \<Rightarrow> (Inl ex, w1)
            | (Inr found, w1) \<Rightarrow> (Inr None, w1)) \<and>
         snd (upsert req validate base webhook_type url w) =
           snd (req ''GET'' (base @ ''/v1/webhooks'') no_kwargs w) \<and>
         (\<forall>h. fst (upsert req validate base webhook_type url w) \<noteq> Inr (Some h))"
proof -
  from assms(1) have m: "map_of webhook_type_map webhook_type \<noteq> None"
    by (simp add: map_of_eq_None_iff)
  from assms(2) have u: "url \<noteq> []" by auto
  have eq: "upsert req validate base webhook_type url w =
           (case get_by_type req validate base webhook_type w of
              (Inl ex, w1) \<Rightarrow> (Inl ex, w1)
            | (Inr found, w1) \<Rightarrow> (Inr None, w1))"
    using m u assms(2) by (auto simp: upsert_def)
  have "snd (upsert req validate base webhook_type url w) =
        snd (get_by_type req validate base webhook_type w)"
    by (simp add: eq split: prod.splits sum.splits)
  then have st: "snd (upsert req validate base webhook_type url w) =
           snd (req ''GET'' (base @ ''/v1/webhooks'') no_kwargs w)"
    by (simp add: get_by_type_state)
  have "\<forall>h. fst (upsert req validate base webhook_type url w) \<noteq> Inr (Some h)"
    by (simp add: eq split: prod.splits sum.splits)
  with eq st show ?thesis by blast
qed

theorem upsert_lookup_only_witness:
  "''PRODUCTS_CREATE'' \<in> fst ` set webhook_type_map \<and> prefix ''http'' hook_url \<and>
   get_by_type (logging_request (json_response webhook_collection)) Some
     ''https://api.test.siigo.com'' ''PRODUCTS_CREATE'' [] =
     (Inr (Some (JObj [(''id'', JStr ''w1''), (''topic'', JStr ''public.siigoapi.products.create''),
                 (''url'', JStr ''https://example.com/hook'')])),
      [(''GET'', ''https://api.test.siigo.com/v1/webhooks'')]) \<and>
   upsert (logging_request (json_response webhook_collection)) Some
     ''https://api.test.siigo.com'' ''PRODUCTS_CREATE'' hook_url [] =
     (Inr None, [(''GET'', ''https://api.test.siigo.com/v1/webhooks'')])"
  using upsert_lookup_only
    [where req = "logging_request (json_response webhook_collection)" and validate = Some
       and base = "''https://api.test.siigo.com''" and webhook_type = "''PRODUCTS_CREATE''"
       and url = hook_url and w = "[]"]
  by (simp add: logging_request_def json_response_def webhook_collection_def hook_url_def
        webhook_type_map_def get_by_type_def response_json_def upsert_def)

end
